theory Spec2Isabelle
  imports Complex_Main "HOL-Library.Word"
begin

section \<open>Python values used by the bridge\<close>

text \<open>
  A Python \<open>str\<close> is a sequence of Unicode code points, a \<open>bytes\<close> object a sequence
  of octets. Python floats are modelled by exact real numbers (rounding to double
  precision is not modelled).
\<close>

type_synonym pystr = "nat list"
type_synonym bytes = "8 word list"

definition str :: "string \<Rightarrow> pystr" where
  "str s = map of_char s"

datatype exn = ZeroDivisionError | StructError | AttributeError | ValueError
  | RequestException | WaveError | SendError

subsection \<open>\<open>bytes.decode('utf-8', errors='ignore')\<close>\<close>

definition is_cont :: "nat \<Rightarrow> bool" where
  "is_cont b = (128 \<le> b \<and> b < 192)"

text \<open>
  The decoder drops the bytes of every ill-formed sequence: one byte for an invalid
  start byte, the bytes before the offending one for an invalid continuation byte, and
  the whole rest for a sequence cut off by the end of the data.
\<close>

fun utf8_ignore :: "nat list \<Rightarrow> pystr" where
  "utf8_ignore [] = []"
| "utf8_ignore (b0 # bs) =
    (if b0 < 128 then b0 # utf8_ignore bs
     else if b0 < 194 then utf8_ignore bs
     else if b0 < 224 then
       (case bs of
          [] \<Rightarrow> []
        | b1 # r1 \<Rightarrow>
            if \<not> is_cont b1 then utf8_ignore bs
            else ((b0 - 192) * 64 + (b1 - 128)) # utf8_ignore r1)
     else if b0 < 240 then
       (case bs of
          [] \<Rightarrow> []
        | b1 # r1 \<Rightarrow>
            if \<not> is_cont b1 \<or> (b0 = 224 \<and> b1 < 160) \<or> (b0 = 237 \<and> 160 \<le> b1)
            then utf8_ignore bs
            else (case r1 of
                    [] \<Rightarrow> []
                  | b2 # r2 \<Rightarrow>
                      if \<not> is_cont b2 then utf8_ignore r1
                      else ((b0 - 224) * 4096 + (b1 - 128) * 64 + (b2 - 128)) # utf8_ignore r2))
     else if b0 < 245 then
       (case bs of
          [] \<Rightarrow> []
        | b1 # r1 \<Rightarrow>
            if \<not> is_cont b1 \<or> (b0 = 240 \<and> b1 < 144) \<or> (b0 = 244 \<and> 144 \<le> b1)
            then utf8_ignore bs
            else (case r1 of
                    [] \<Rightarrow> []
                  | b2 # r2 \<Rightarrow>
                      if \<not> is_cont b2 then utf8_ignore r1
                      else (case r2 of
                              [] \<Rightarrow> []
                            | b3 # r3 \<Rightarrow>
                                if \<not> is_cont b3 then utf8_ignore r2
                                else ((b0 - 240) * 262144 + (b1 - 128) * 4096
                                      + (b2 - 128) * 64 + (b3 - 128)) # utf8_ignore r3)))
     else utf8_ignore bs)"

definition decode_utf8_ignore :: "bytes \<Rightarrow> pystr" where
  "decode_utf8_ignore bs = utf8_ignore (map unat bs)"

subsection \<open>\<open>str\<close> methods\<close>

text \<open>\<open>str.isspace\<close> for one code point: the Unicode whitespace characters.\<close>

definition py_isspace :: "nat \<Rightarrow> bool" where
  "py_isspace c =
     ((9 \<le> c \<and> c \<le> 13) \<or> (28 \<le> c \<and> c \<le> 32) \<or> c = 133 \<or> c = 160 \<or> c = 5760
      \<or> (8192 \<le> c \<and> c \<le> 8202) \<or> c = 8232 \<or> c = 8233 \<or> c = 8239 \<or> c = 8287
      \<or> c = 12288)"

definition rstrip_chars :: "(nat \<Rightarrow> bool) \<Rightarrow> pystr \<Rightarrow> pystr" where
  "rstrip_chars P s = rev (dropWhile P (rev s))"

definition strip :: "pystr \<Rightarrow> pystr" where
  "strip s = rstrip_chars py_isspace (dropWhile py_isspace s)"

text \<open>\<open>header.rstrip('\x00 ')\<close>\<close>

definition rstrip_nul_space :: "pystr \<Rightarrow> pystr" where
  "rstrip_nul_space s = rstrip_chars (\<lambda>c. c = 0 \<or> c = 32) s"

text \<open>\<open>s.split(sep)\<close> for a one-character separator: always at least one field.\<close>

fun split :: "nat \<Rightarrow> pystr \<Rightarrow> pystr list" where
  "split sep [] = [[]]"
| "split sep (c # cs) =
    (if c = sep then [] # split sep cs
     else (case split sep cs of
             [] \<Rightarrow> [[c]]
           | p # ps \<Rightarrow> (c # p) # ps))"

definition startswith :: "pystr \<Rightarrow> pystr \<Rightarrow> bool" where
  "startswith s p = (take (length p) s = p)"


subsection \<open>JSON values\<close>

datatype json = JNull | JBool bool | JNum real | JStr pystr | JArr "json list"
  | JObj "(pystr \<times> json) list"

text \<open>Python truthiness of a decoded JSON value (\<open>if result:\<close>).\<close>

fun truthy :: "json \<Rightarrow> bool" where
  "truthy JNull = False"
| "truthy (JBool b) = b"
| "truthy (JNum x) = (x \<noteq> 0)"
| "truthy (JStr s) = (s \<noteq> [])"
| "truthy (JArr xs) = (xs \<noteq> [])"
| "truthy (JObj kvs) = (kvs \<noteq> [])"

text \<open>\<open>d.get(key, default)\<close>; only a dict has the method.\<close>

fun dict_get :: "json \<Rightarrow> pystr \<Rightarrow> json \<Rightarrow> exn + json" where
  "dict_get (JObj kvs) k d = Inr (case map_of kvs k of None \<Rightarrow> d | Some v \<Rightarrow> v)"
| "dict_get _ k d = Inl AttributeError"

subsection \<open>Library functions\<close>

datatype jwt_outcome = Decoded json | ExpiredSignatureError | InvalidAudienceError
  | InvalidTokenError | OtherError

text \<open>
  The functions of imported packages that the bridge calls and that are not part of the
  repository: the regular-expression matcher (\<open>pattern.match(s) is not None\<close> for a
  pattern compiled with \<open>re.IGNORECASE\<close>), \<open>str.lower\<close>, \<open>jwt.decode\<close> with the
  key and audience, and the \<open>wave\<close> writer for one channel of 16-bit samples.
\<close>

record 're pylib =
  re_match :: "'re \<Rightarrow> pystr \<Rightarrow> bool"
  lower :: "pystr \<Rightarrow> pystr"
  jwt_decode :: "pystr \<Rightarrow> pystr option \<Rightarrow> pystr \<Rightarrow> jwt_outcome"
  wave_write :: "int \<Rightarrow> bytes \<Rightarrow> exn + bytes"

section \<open>JWT authentication\<close>




section \<open>Hallucination filtering\<close>

record 're hallucination_filter =
  hf_enabled :: bool
  min_length :: int
  compiled_patterns :: "pystr \<rightharpoonup> 're list"

text \<open>
  The language comes from the backend's JSON answer; \<open>language.split\<close> raises for a
  value that is not a string.
\<close>

definition is_hallucination ::
  "'re pylib \<Rightarrow> 're hallucination_filter \<Rightarrow> pystr \<Rightarrow> json \<Rightarrow> exn + bool" where
  "is_hallucination lib f text language =
     (if \<not> hf_enabled f then Inr False
      else if text = [] \<or> length (strip text) = 0 then Inr True
      else
        let text_lower = strip (lower lib text) in
        if int (length text_lower) < min_length f then Inr True
        else (case language of
                JStr l \<Rightarrow>
                  let lang_code = hd (split 45 l) in
                  if (case compiled_patterns f lang_code of
                        None \<Rightarrow> False
                      | Some ps \<Rightarrow> list_ex (\<lambda>p. re_match lib p text_lower) ps)
                  then Inr True
                  else if (case compiled_patterns f (str ''common'') of
                             None \<Rightarrow> False
                           | Some ps \<Rightarrow> list_ex (\<lambda>p. re_match lib p text_lower) ps)
                  then Inr True
                  else Inr False
              | _ \<Rightarrow> Inl AttributeError))"

section \<open>Audio processing\<close>

record audio_buffer =
  sample_rate :: int
  buffer :: bytes
  client_id :: "pystr option"
  language :: pystr

definition new_audio_buffer :: "int \<Rightarrow> audio_buffer" where
  "new_audio_buffer rate =
     \<lparr>sample_rate = rate, buffer = [], client_id = None, language = str ''en''\<rparr>"

definition add_chunk :: "audio_buffer \<Rightarrow> bytes \<Rightarrow> audio_buffer" where
  "add_chunk ab audio_data = ab\<lparr>buffer := buffer ab @ audio_data\<rparr>"

definition get_duration_ms :: "audio_buffer \<Rightarrow> exn + real" where
  "get_duration_ms ab =
     (let num_samples = length (buffer ab) div 2 in
      if sample_rate ab = 0 then Inl ZeroDivisionError
      else Inr ((real num_samples / real_of_int (sample_rate ab)) * 1000))"

text \<open>One signed 16-bit sample from its low and high byte.\<close>

definition int16_le :: "8 word \<Rightarrow> 8 word \<Rightarrow> int" where
  "int16_le lo hi =
     (let u = int (unat lo) + 256 * int (unat hi) in if u < 32768 then u else u - 65536)"

fun samples_le :: "bytes \<Rightarrow> int list" where
  "samples_le (lo # hi # bs) = int16_le lo hi # samples_le bs"
| "samples_le _ = []"

text \<open>
  \<open>struct.unpack(f'{n}h', data)\<close>: the data must be exactly \<open>2 * n\<close> bytes long. The
  format has no byte-order prefix, so the host's order is used; it is little-endian here.
\<close>

definition unpack_h :: "nat \<Rightarrow> bytes \<Rightarrow> exn + int list" where
  "unpack_h n bs = (if length bs \<noteq> 2 * n then Inl StructError else Inr (samples_le bs))"

definition rms :: "int list \<Rightarrow> real" where
  "rms samples =
     sqrt (real_of_int (sum_list (map (\<lambda>s. s * s) samples)) / real (length samples))"

definition get_rms_energy :: "audio_buffer \<Rightarrow> real" where
  "get_rms_energy ab =
     (if length (buffer ab) < 2 then 0
      else (case unpack_h (length (buffer ab) div 2) (buffer ab) of
              Inr samples \<Rightarrow> rms samples
            | Inl e \<Rightarrow> 0))"

definition to_wav :: "'re pylib \<Rightarrow> audio_buffer \<Rightarrow> exn + bytes option" where
  "to_wav lib ab =
     (if length (buffer ab) = 0 then Inr None
      else (case wave_write lib (sample_rate ab) (buffer ab) of
              Inl e \<Rightarrow> Inl e
            | Inr w \<Rightarrow> Inr (Some w)))"

definition clear :: "audio_buffer \<Rightarrow> audio_buffer" where
  "clear ab = ab\<lparr>buffer := []\<rparr>"

section \<open>Whisper transcription\<close>

record request =
  req_url :: pystr
  req_file :: bytes
  req_data :: "(pystr \<times> pystr) list"
  req_timeout :: real

text \<open>
  What \<open>requests.post\<close> followed by \<open>response.json()\<close> can do: fail to connect, time
  out, or answer with a status code and a body that parses as JSON (\<open>Some\<close>) or does not.
\<close>

datatype http_outcome = ConnectionFailed | TimedOut | Response int "json option"

record 're whisper_client =
  url :: pystr
  timeout :: real
  auto_detect_code :: pystr
  default_language :: pystr
  silence_threshold :: real
  hfilter :: "'re hallucination_filter"

text \<open>The inner function: every exception of the request is caught and gives None.\<close>

definition sync_request ::
  "'re whisper_client \<Rightarrow> (request \<Rightarrow> http_outcome) \<Rightarrow> bytes \<Rightarrow> pystr option
     \<Rightarrow> json option \<times> request list" where
  "sync_request wc backend wav_bytes language_param =
     (let data = [(str ''temperature'', str ''0.0''), (str ''response-format'', str ''json'')];
          data = (case language_param of
                    None \<Rightarrow> data
                  | Some l \<Rightarrow> if l \<noteq> [] then data @ [(str ''language'', l)] else data);
          req = \<lparr>req_url = url wc, req_file = wav_bytes, req_data = data,
                 req_timeout = timeout wc\<rparr>
      in (case backend req of
            ConnectionFailed \<Rightarrow> (None, [req])
          | TimedOut \<Rightarrow> (None, [req])
          | Response status_code body \<Rightarrow>
              if status_code = 200 then (body, [req]) else (None, [req])))"

text \<open>
  The body of the outer \<open>try\<close>: the result or the exception raised, and the requests
  sent to the backend.
\<close>

definition transcribe_try ::
  "'re pylib \<Rightarrow> 're whisper_client \<Rightarrow> (request \<Rightarrow> http_outcome) \<Rightarrow> audio_buffer
     \<Rightarrow> (exn + pystr option) \<times> request list" where
  "transcribe_try lib wc backend ab =
     (let energy = get_rms_energy ab in
      if energy < silence_threshold wc then (Inr None, [])
      else (case to_wav lib ab of
              Inl e \<Rightarrow> (Inl e, [])
            | Inr None \<Rightarrow> (Inr None, [])
            | Inr (Some wav_bytes) \<Rightarrow>
                let lang = (if language ab \<noteq> [] then hd (split 45 (language ab))
                            else default_language wc);
                    language_param = (if lang = auto_detect_code wc then None else Some lang);
                    detect_language = lang;
                    (result, reqs) = sync_request wc backend wav_bytes language_param
                in (case result of
                      None \<Rightarrow> (Inr None, reqs)
                    | Some r \<Rightarrow>
                        if \<not> truthy r then (Inr None, reqs)
                        else (case dict_get r (str ''text'') (JStr []) of
                                Inl e \<Rightarrow> (Inl e, reqs)
                              | Inr (JStr t) \<Rightarrow>
                                  let text = strip t in
                                  (case dict_get r (str ''language'') (JStr detect_language) of
                                     Inl e \<Rightarrow> (Inl e, reqs)
                                   | Inr detected_lang \<Rightarrow>
                                       (case is_hallucination lib (hfilter wc) text detected_lang of
                                          Inl e \<Rightarrow> (Inl e, reqs)
                                        | Inr True \<Rightarrow> (Inr None, reqs)
                                        | Inr False \<Rightarrow> (Inr (Some text), reqs)))
                              | Inr _ \<Rightarrow> (Inl AttributeError, reqs)))))"

text \<open>\<open>except Exception\<close> around the whole body: any exception gives None.\<close>

definition transcribe ::
  "'re pylib \<Rightarrow> 're whisper_client \<Rightarrow> (request \<Rightarrow> http_outcome) \<Rightarrow> audio_buffer
     \<Rightarrow> pystr option \<times> request list" where
  "transcribe lib wc backend ab =
     (case transcribe_try lib wc backend ab of
        (Inl e, reqs) \<Rightarrow> (None, reqs)
      | (Inr r, reqs) \<Rightarrow> (r, reqs))"

section \<open>WebSocket handler\<close>

record config =
  cfg_sample_rate :: int
  cfg_chunk_duration_ms :: real

datatype message = Binary bytes | Text pystr

text \<open>The local variables of \<open>handle_client\<close> that live across messages.\<close>

record session =
  ab :: audio_buffer
  message_count :: nat
  transcript_count :: nat
  last_transcript :: pystr


text \<open>What the outside world does during one message: the backend and the socket.\<close>

record world =
  backend :: "request \<Rightarrow> http_outcome"
  send_ok :: bool

datatype state = Streaming session | Closed

text \<open>The next state, the responses sent to the client and the requests sent to the backend.\<close>

type_synonym step_result = "state \<times> json list \<times> request list"

text \<open>
  Lines 438 to 454. Neither the slice, the decoding with \<open>errors='ignore'\<close> nor the string
  methods raise, so the \<open>except\<close> branch is never taken.
\<close>

definition parse_header :: "session \<Rightarrow> bytes \<Rightarrow> session" where
  "parse_header s msg =
     (let header_bytes = take 60 msg;
          header = rstrip_nul_space (decode_utf8_ignore header_bytes);
          parts = split 124 header
      in if length parts \<ge> 2
         then s\<lparr>ab := (ab s)\<lparr>client_id := Some (strip (parts ! 0)),
                               language := strip (parts ! 1)\<rparr>\<rparr>
         else s)"

text \<open>Lines 456 to 459.\<close>

definition buffer_audio :: "session \<Rightarrow> bytes \<Rightarrow> session" where
  "buffer_audio s msg =
     (let audio_data = drop 60 msg
      in if length audio_data > 0 then s\<lparr>ab := add_chunk (ab s) audio_data\<rparr> else s)"

text \<open>Lines 438 to 459 together: what a binary message of 60 bytes or more does to the session.\<close>

definition receive_frame :: "session \<Rightarrow> bytes \<Rightarrow> session" where
  "receive_frame s msg = buffer_audio (parse_header s msg) msg"

definition final_response :: "pystr option \<Rightarrow> pystr \<Rightarrow> json" where
  "final_response pid text =
     JObj [(str ''type'', JStr (str ''final'')),
           (str ''participant_id'', (case pid of None \<Rightarrow> JNull | Some p \<Rightarrow> JStr p)),
           (str ''text'', JStr text),
           (str ''variance'', JNum 0)]"

definition partial_response :: "pystr option \<Rightarrow> json" where
  "partial_response pid =
     JObj [(str ''type'', JStr (str ''partial'')),
           (str ''participant_id'', (case pid of None \<Rightarrow> JNull | Some p \<Rightarrow> JStr p)),
           (str ''text'', JStr []),
           (str ''variance'', JNum 1)]"

text \<open>Lines 463 to 490: transcribe, respond, clear. A failed send ends the session.\<close>

definition drain ::
  "'re pylib \<Rightarrow> 're whisper_client \<Rightarrow> world \<Rightarrow> session \<Rightarrow> step_result" where
  "drain lib wc w s =
     (let (text, reqs) = transcribe lib wc (backend w) (ab s);
          (response, s') =
            (case text of
               Some t \<Rightarrow>
                 if t \<noteq> [] \<and> t \<noteq> last_transcript s
                 then (final_response (client_id (ab s)) t,
                       s\<lparr>transcript_count := transcript_count s + 1, last_transcript := t\<rparr>)
                 else (partial_response (client_id (ab s)), s)
             | None \<Rightarrow> (partial_response (client_id (ab s)), s))
      in if send_ok w then (Streaming (s'\<lparr>ab := clear (ab s')\<rparr>), [response], reqs)
         else (Closed, [], reqs))"

text \<open>One iteration of the message loop.\<close>

definition handle_message ::
  "'re pylib \<Rightarrow> config \<Rightarrow> 're whisper_client \<Rightarrow> world \<Rightarrow> session \<Rightarrow> message
     \<Rightarrow> step_result" where
  "handle_message lib cfg wc w s0 m =
     (let s = s0\<lparr>message_count := message_count s0 + 1\<rparr> in
      case m of
        Text t \<Rightarrow> (Streaming s, [], [])
      | Binary msg \<Rightarrow>
          if length msg < 60 then (Streaming s, [], [])
          else
            let s = receive_frame s msg in
            (case get_duration_ms (ab s) of
               Inl e \<Rightarrow> (Closed, [], [])
             | Inr d \<Rightarrow>
                 if d \<ge> cfg_chunk_duration_ms cfg then drain lib wc w s
                 else (Streaming s, [], [])))"






section \<open>Notions used in the properties\<close>

text \<open>The fields of the header of a binary message, as \<open>parse_header\<close> computes them.\<close>

definition header_fields :: "bytes \<Rightarrow> pystr list" where
  "header_fields msg = split 124 (rstrip_nul_space (decode_utf8_ignore (take 60 msg)))"

text \<open>A message that cannot set the participant: text, too short, or fewer than two fields.\<close>

fun no_header :: "message \<Rightarrow> bool" where
  "no_header (Text t) = True"
| "no_header (Binary msg) = (length msg < 60 \<or> length (header_fields msg) < 2)"

text \<open>The type and the text of a response, and its participant.\<close>

fun is_final :: "json \<Rightarrow> pystr \<Rightarrow> bool" where
  "is_final (JObj kvs) t =
     (map_of kvs (str ''type'') = Some (JStr (str ''final''))
      \<and> map_of kvs (str ''text'') = Some (JStr t))"
| "is_final _ t = False"

fun participant_of :: "json \<Rightarrow> json option" where
  "participant_of (JObj kvs) = map_of kvs (str ''participant_id'')"
| "participant_of _ = None"

text \<open>No final response of the list repeats the text of the last accepted transcript.\<close>

fun no_repeat :: "pystr \<Rightarrow> json list \<Rightarrow> bool" where
  "no_repeat prev [] = True"
| "no_repeat prev (r # rs) =
     (case r of
        JObj kvs \<Rightarrow>
          (if map_of kvs (str ''type'') = Some (JStr (str ''final''))
           then (case map_of kvs (str ''text'') of
                   Some (JStr t) \<Rightarrow> t \<noteq> prev \<and> no_repeat t rs
                 | _ \<Rightarrow> False)
           else no_repeat prev rs)
      | _ \<Rightarrow> False)"

section \<open>An example deployment\<close>

text \<open>
  Stand-ins for the library, used to run the model on concrete inputs: patterns are
  literal prefixes, \<open>lower\<close> folds ASCII letters, one token is valid, one expired, one for another audience, and the WAV
  writer returns the samples.
\<close>

definition ascii_lower :: "nat \<Rightarrow> nat" where
  "ascii_lower c = (if 65 \<le> c \<and> c \<le> 90 then c + 32 else c)"

definition lib0 :: "pystr pylib" where
  "lib0 = \<lparr>re_match = (\<lambda>p s. startswith s p),
           lower = map ascii_lower,
           jwt_decode = (\<lambda>token key aud.
              if token = str ''good'' then Decoded (JObj [(str ''iss'', JStr (str ''jitsi''))])
              else if token = str ''expired'' then ExpiredSignatureError
              else if token = str ''other-aud'' then InvalidAudienceError
              else InvalidTokenError),
           wave_write = (\<lambda>rate data. Inr data)\<rparr>"

definition filter0 :: "pystr hallucination_filter" where
  "filter0 = \<lparr>hf_enabled = True, min_length = 3,
              compiled_patterns = [str ''en'' \<mapsto> [str ''thank you'', str ''thanks''],
                                  str ''common'' \<mapsto> [str ''[music]'']]\<rparr>"

definition wc0 :: "pystr whisper_client" where
  "wc0 = \<lparr>url = str ''http://localhost:8080/inference'', timeout = 30,
          auto_detect_code = str ''auto'', default_language = str ''en'',
          silence_threshold = 50, hfilter = filter0\<rparr>"




text \<open>Frames: a 60-byte header padded with NUL bytes, then 16-bit samples of value 16384.\<close>

definition frame :: "string \<Rightarrow> nat \<Rightarrow> bytes" where
  "frame hdr n = map of_char hdr @ replicate (60 - length hdr) 0 @ concat (replicate n [0, 64])"

definition hello_world :: "request \<Rightarrow> http_outcome" where
  "hello_world req =
     Response 200 (Some (JObj [(str ''text'', JStr (str ''hello world'')),
                               (str ''language'', JStr (str ''en''))]))"


section \<open>Properties of the audio buffer\<close>

lemma samples_le_length: "length (samples_le bs) = length bs div 2"
  by (induction bs rule: samples_le.induct) auto

lemma uint_cat16:
  "uint (word_cat hi lo :: 16 word) = uint (hi :: 8 word) * 256 + uint (lo :: 8 word)"
proof -
  have "uint hi < 256" "uint lo < 256" "0 \<le> uint hi" "0 \<le> uint lo"
    using uint_lt2p [of hi] uint_lt2p [of lo] by simp_all
  then show ?thesis
    by (simp add: word_cat_eq uint_word_ariths push_bit_eq_mult take_bit_eq_mod
        uint_word_of_int unsigned_ucast_eq)
qed

lemma sint16: "sint (w :: 16 word) = (if uint w < 32768 then uint w else uint w - 65536)"
proof -
  have b: "0 \<le> uint w" "uint w < 65536" using uint_lt2p [of w] by simp_all
  have "sint w = signed_take_bit 15 (uint w)" by (simp add: sint_uint)
  also have "\<dots> = (uint w + 32768) mod 65536 - 32768"
    by (simp add: signed_take_bit_eq_take_bit_shift take_bit_eq_mod)
  also have "\<dots> = (if uint w < 32768 then uint w else uint w - 65536)"
  proof (cases "uint w < 32768")
    case True
    with b have "(uint w + 32768) mod 65536 = uint w + 32768"
      by (intro mod_pos_pos_trivial) simp_all
    with True show ?thesis by simp
  next
    case False
    have "(uint w + 32768) mod 65536 = (uint w + 32768 - 65536) mod 65536"
      by (simp only: minus_mod_self2)
    also from False b have "\<dots> = uint w + 32768 - 65536"
      by (intro mod_pos_pos_trivial) simp_all
    finally show ?thesis using False by simp
  qed
  finally show ?thesis .
qed

lemma int16_le_sint: "int16_le lo hi = sint (word_cat hi lo :: 16 word)"
  by (simp add: int16_le_def sint16 uint_cat16 Let_def add.commute mult.commute)

lemma samples_le_nth:
  "i < length bs div 2 \<Longrightarrow>
   samples_le bs ! i = sint (word_cat (bs ! (2 * i + 1)) (bs ! (2 * i)) :: 16 word)"
proof (induction bs arbitrary: i rule: samples_le.induct)
  case (1 lo hi bs)
  then show ?case by (cases i) (simp_all add: int16_le_sint)
qed simp_all

lemma sum_squares_nth:
  "(\<Sum>s\<leftarrow>samples_le bs. s * s)
     = (\<Sum>i<length bs div 2. (sint (word_cat (bs ! (2 * i + 1)) (bs ! (2 * i)) :: 16 word))\<^sup>2)"
proof -
  have "(\<Sum>s\<leftarrow>samples_le bs. s * s) = (\<Sum>i<length bs div 2. samples_le bs ! i * samples_le bs ! i)"
    by (simp add: sum_list_sum_nth samples_le_length atLeast0LessThan)
  also have "\<dots> = (\<Sum>i<length bs div 2. (sint (word_cat (bs ! (2 * i + 1)) (bs ! (2 * i)) :: 16 word))\<^sup>2)"
    by (rule sum.cong) (simp_all add: samples_le_nth power2_eq_square)
  finally show ?thesis .
qed

text \<open>
  C9: \<open>get_rms_energy\<close> has a value for every buffer (the exception of
  \<open>struct.unpack\<close> is a branch that gives 0). It is 0 for fewer than two bytes and 0
  for an odd number of bytes (the decode error). Otherwise it is the square root of the
  mean of the squares of the samples, where sample \<open>i\<close> is the two's-complement value
  of the 16-bit word whose low byte is byte \<open>2 * i\<close> and whose high byte is byte
  \<open>2 * i + 1\<close> of the buffer.
\<close>

theorem get_rms_energy_total:
  "(length (buffer b) < 2 \<longrightarrow> get_rms_energy b = 0)
   \<and> (odd (length (buffer b)) \<longrightarrow> get_rms_energy b = 0)
   \<and> (2 \<le> length (buffer b) \<and> even (length (buffer b)) \<longrightarrow>
        get_rms_energy b
          = sqrt (real_of_int
                    (\<Sum>i<length (buffer b) div 2.
                        (sint (word_cat (buffer b ! (2 * i + 1)) (buffer b ! (2 * i)) :: 16 word))\<^sup>2)
                  / real (length (buffer b) div 2)))"
  by (auto simp: get_rms_energy_def unpack_h_def rms_def samples_le_length sum_squares_nth)

theorem get_rms_energy_total_witness:
  "get_rms_energy (new_audio_buffer 16000\<lparr>buffer := [7]\<rparr>) = 0
   \<and> get_rms_energy (new_audio_buffer 16000\<lparr>buffer := [253, 255, 7]\<rparr>) = 0
   \<and> get_rms_energy (new_audio_buffer 16000\<lparr>buffer := [0, 64, 0, 64]\<rparr>) = 16384
   \<and> get_rms_energy (new_audio_buffer 16000\<lparr>buffer := [2, 2, 242, 241]\<rparr>) = 2570"
proof -
  let ?b = "\<lambda>bs. new_audio_buffer 16000\<lparr>buffer := bs\<rparr>"
  have two: "{..<2::nat} = {0, 1}" by auto
  have s1: "sqrt 268435456 = 16384" by (rule real_sqrt_unique) simp_all
  have s2: "sqrt 6604900 = 2570" by (rule real_sqrt_unique) simp_all
  have "get_rms_energy (?b [7]) = 0"
    using get_rms_energy_total [of "?b [7]"] by simp
  moreover have "get_rms_energy (?b [253, 255, 7]) = 0"
    using get_rms_energy_total [of "?b [253, 255, 7]"] by simp
  moreover have "get_rms_energy (?b [0, 64, 0, 64]) = 16384"
    using get_rms_energy_total [of "?b [0, 64, 0, 64]"]
    by (simp add: two sint16 uint_cat16 s1)
  moreover have "get_rms_energy (?b [2, 2, 242, 241]) = 2570"
    using get_rms_energy_total [of "?b [2, 2, 242, 241]"]
    by (simp add: two sint16 uint_cat16 s2)
  ultimately show ?thesis by simp
qed

section \<open>Properties of the hallucination filter\<close>

lemma split_nonempty: "split sep s \<noteq> []"
  by (induction s) (auto split: list.splits)

lemma hd_split: "hd (split sep s) = takeWhile (\<lambda>c. c \<noteq> sep) s"
  by (induction s) (auto split: list.splits simp: split_nonempty)

lemma length_split: "length (split sep s) = Suc (length (filter (\<lambda>c. c = sep) s))"
  by (induction s) (auto split: list.splits simp: split_nonempty)

lemma dropWhile_all: "(\<forall>x\<in>set (dropWhile P xs). P x) = (\<forall>x\<in>set xs. P x)"
  by (induction xs) auto

lemma strip_blank: "(strip s = []) = (\<forall>c\<in>set s. py_isspace c)"
  by (simp add: strip_def rstrip_chars_def dropWhile_eq_Nil_conv dropWhile_all)

text \<open>
  C6: for a language string, \<open>is_hallucination\<close> is true exactly when the filter is
  enabled and the text is empty or blank, or its lowered and stripped form is shorter
  than \<open>min_length\<close>, or that form is matched by a pattern registered for the language
  code up to the first hyphen or by a pattern registered for \<open>common\<close>. A disabled
  filter answers false whatever the text and the language are.
\<close>

theorem is_hallucination_iff:
  "is_hallucination lib f text (JStr l) =
     Inr (hf_enabled f \<and>
          (text = [] \<or> (\<forall>c\<in>set text. py_isspace c)
           \<or> int (length (strip (lower lib text))) < min_length f
           \<or> (\<exists>ps p. compiled_patterns f (takeWhile (\<lambda>c. c \<noteq> 45) l) = Some ps \<and> p \<in> set ps
                 \<and> re_match lib p (strip (lower lib text)))
           \<or> (\<exists>ps p. compiled_patterns f (str ''common'') = Some ps \<and> p \<in> set ps
                 \<and> re_match lib p (strip (lower lib text)))))
   \<and> (\<not> hf_enabled f \<longrightarrow> is_hallucination lib f text lang = Inr False)"
  by (auto simp: is_hallucination_def Let_def hd_split list_ex_iff strip_blank
      split: option.splits)

theorem is_hallucination_iff_witness:
  "is_hallucination lib0 filter0 (str ''  Thank You!  '') (JStr (str ''en-US'')) = Inr True
   \<and> is_hallucination lib0 filter0 (str ''Thank you for coming'') (JStr (str ''de'')) = Inr False
   \<and> is_hallucination lib0 filter0 (str '' [Music] '') (JStr (str ''de-AT'')) = Inr True
   \<and> is_hallucination lib0 filter0 (str ''ok'') (JStr (str ''en'')) = Inr True
   \<and> is_hallucination lib0 filter0 (str ''okay'') (JStr (str ''en'')) = Inr False
   \<and> is_hallucination lib0 filter0 [] (JStr (str ''en'')) = Inr True
   \<and> is_hallucination lib0 filter0 [32, 9, 10] (JStr (str ''en'')) = Inr True
   \<and> is_hallucination lib0 (filter0\<lparr>hf_enabled := False\<rparr>) [] JNull = Inr False"
proof -
  have strips:
    "strip (lower lib0 (str ''  Thank You!  '')) = str ''thank you!''"
    "strip (lower lib0 (str ''Thank you for coming'')) = str ''thank you for coming''"
    "strip (lower lib0 (str '' [Music] '')) = str ''[music]''"
    "strip (lower lib0 (str ''ok'')) = str ''ok''"
    "strip (lower lib0 (str ''okay'')) = str ''okay''"
    by (simp_all add: strip_def rstrip_chars_def lib0_def str_def py_isspace_def ascii_lower_def)
  have tw:
    "takeWhile (\<lambda>c. c \<noteq> 45) (str ''en-US'') = str ''en''"
    "takeWhile (\<lambda>c. c \<noteq> 45) (str ''de-AT'') = str ''de''"
    "takeWhile (\<lambda>c. c \<noteq> 45) (str ''en'') = str ''en''"
    "takeWhile (\<lambda>c. c \<noteq> 45) (str ''de'') = str ''de''"
    by (simp_all add: str_def)
  have pats:
    "compiled_patterns filter0 (str ''en'') = Some [str ''thank you'', str ''thanks'']"
    "compiled_patterns filter0 (str ''de'') = None"
    "compiled_patterns filter0 (str ''common'') = Some [str ''[music]'']"
    by (simp_all add: filter0_def str_def)
  have m: "re_match lib0 = (\<lambda>p s. startswith s p)" by (simp add: lib0_def)
  have f: "hf_enabled filter0" "min_length filter0 = 3" by (simp_all add: filter0_def)
  have c1: "is_hallucination lib0 filter0 (str ''  Thank You!  '') (JStr (str ''en-US'')) = Inr True"
    using is_hallucination_iff [of lib0 filter0 "str ''  Thank You!  ''" "str ''en-US''"]
    unfolding strips tw pats m by (auto simp add: f startswith_def str_def py_isspace_def)
  have c2: "is_hallucination lib0 filter0 (str ''Thank you for coming'') (JStr (str ''de'')) = Inr False"
    using is_hallucination_iff [of lib0 filter0 "str ''Thank you for coming''" "str ''de''"]
    unfolding strips tw pats m by (auto simp add: f startswith_def str_def py_isspace_def)
  have c3: "is_hallucination lib0 filter0 (str '' [Music] '') (JStr (str ''de-AT'')) = Inr True"
    using is_hallucination_iff [of lib0 filter0 "str '' [Music] ''" "str ''de-AT''"]
    unfolding strips tw pats m by (auto simp add: f startswith_def str_def py_isspace_def)
  have c4: "is_hallucination lib0 filter0 (str ''ok'') (JStr (str ''en'')) = Inr True"
    using is_hallucination_iff [of lib0 filter0 "str ''ok''" "str ''en''"]
    unfolding strips tw pats m by (auto simp add: f startswith_def str_def py_isspace_def)
  have c5: "is_hallucination lib0 filter0 (str ''okay'') (JStr (str ''en'')) = Inr False"
    using is_hallucination_iff [of lib0 filter0 "str ''okay''" "str ''en''"]
    unfolding strips tw pats m by (auto simp add: f startswith_def str_def py_isspace_def)
  have c6: "is_hallucination lib0 filter0 [] (JStr (str ''en'')) = Inr True"
    using is_hallucination_iff [of lib0 filter0 "[]" "str ''en''"]
    by (simp add: f)
  have c7: "is_hallucination lib0 filter0 [32, 9, 10] (JStr (str ''en'')) = Inr True"
    using is_hallucination_iff [of lib0 filter0 "[32, 9, 10]" "str ''en''"]
    by (simp add: f py_isspace_def)
  have c8: "is_hallucination lib0 (filter0\<lparr>hf_enabled := False\<rparr>) [] JNull = Inr False"
    using is_hallucination_iff [of lib0 "filter0\<lparr>hf_enabled := False\<rparr>" "[]" "[]" JNull]
    by simp
  from c1 c2 c3 c4 c5 c6 c7 c8 show ?thesis by simp
qed

section \<open>Properties of the authentication gate\<close>




section \<open>Properties of the transcription client\<close>

lemma sum_squares_zero: "\<forall>b\<in>set bs. b = 0 \<Longrightarrow> (\<Sum>s\<leftarrow>samples_le bs. s * s) = 0"
  by (induction bs rule: samples_le.induct) (auto simp: int16_le_def)

lemma rms_energy_zero: "\<forall>x\<in>set (buffer b). x = 0 \<Longrightarrow> get_rms_energy b = 0"
  by (simp add: get_rms_energy_def unpack_h_def rms_def sum_squares_zero)

lemma energy_loud: "get_rms_energy (b\<lparr>buffer := [0, 64, 0, 64]\<rparr>) = 16384"
proof -
  have "sqrt 268435456 = 16384" by (rule real_sqrt_unique) simp_all
  then show ?thesis
    by (simp add: get_rms_energy_def unpack_h_def rms_def int16_le_def)
qed

lemma energy_quiet: "get_rms_energy (b\<lparr>buffer := [3, 0, 252, 255]\<rparr>) < 50"
proof -
  have "sqrt (25 / 2) < sqrt 2500" by (rule real_sqrt_less_mono) simp
  also have "sqrt 2500 = 50" by (rule real_sqrt_unique) simp_all
  finally have "sqrt (25 / 2) < 50" .
  then show ?thesis
    by (simp add: get_rms_energy_def unpack_h_def rms_def int16_le_def)
qed

text \<open>
  C4: when the energy of the chunk is below the silence threshold, \<open>transcribe\<close>
  returns None and sends no request, whatever the backend would answer; calling it again
  on the same chunk, with any backend, gives the same. A chunk whose bytes are all zero
  is such a chunk as soon as the threshold is positive.
\<close>

theorem transcribe_silence:
  "(get_rms_energy b < silence_threshold wc \<longrightarrow>
      transcribe lib wc backend1 b = (None, []) \<and> transcribe lib wc backend2 b = (None, []))
   \<and> ((\<forall>x\<in>set (buffer b). x = 0) \<and> 0 < silence_threshold wc \<longrightarrow>
      transcribe lib wc backend1 b = (None, []) \<and> transcribe lib wc backend2 b = (None, []))"
  by (simp add: transcribe_def transcribe_try_def rms_energy_zero)

theorem transcribe_silence_witness:
  "transcribe lib0 wc0 hello_world (new_audio_buffer 1000\<lparr>buffer := [0, 0, 0, 0]\<rparr>) = (None, [])
   \<and> transcribe lib0 wc0 (\<lambda>r. TimedOut) (new_audio_buffer 1000\<lparr>buffer := [0, 0, 0, 0]\<rparr>) = (None, [])
   \<and> transcribe lib0 wc0 hello_world (new_audio_buffer 1000\<lparr>buffer := [3, 0, 252, 255]\<rparr>) = (None, [])
   \<and> transcribe lib0 wc0 hello_world (new_audio_buffer 1000\<lparr>buffer := [0, 64, 0, 64]\<rparr>)
       = (Some (str ''hello world''),
          [\<lparr>req_url = str ''http://localhost:8080/inference'', req_file = [0, 64, 0, 64],
            req_data = [(str ''temperature'', str ''0.0''), (str ''response-format'', str ''json''),
                        (str ''language'', str ''en'')],
            req_timeout = 30\<rparr>])"
proof -
  have thr: "silence_threshold wc0 = 50" by (simp add: wc0_def)
  have c1: "transcribe lib0 wc0 hello_world (new_audio_buffer 1000\<lparr>buffer := [0, 0, 0, 0]\<rparr>) = (None, [])
     \<and> transcribe lib0 wc0 (\<lambda>r. TimedOut) (new_audio_buffer 1000\<lparr>buffer := [0, 0, 0, 0]\<rparr>) = (None, [])"
    using transcribe_silence [of "new_audio_buffer 1000\<lparr>buffer := [0, 0, 0, 0]\<rparr>" wc0 lib0
        hello_world "\<lambda>r. TimedOut"]
    by (simp add: thr)
  have c2: "transcribe lib0 wc0 hello_world (new_audio_buffer 1000\<lparr>buffer := [3, 0, 252, 255]\<rparr>) = (None, [])"
    using transcribe_silence [of "new_audio_buffer 1000\<lparr>buffer := [3, 0, 252, 255]\<rparr>" wc0 lib0
        hello_world hello_world] energy_quiet [of "new_audio_buffer 1000"]
    by (simp add: thr)
  have hyph: "hd (split 45 (str ''en'')) = str ''en''" by (simp add: str_def)
  have c3: "transcribe lib0 wc0 hello_world (new_audio_buffer 1000\<lparr>buffer := [0, 64, 0, 64]\<rparr>)
       = (Some (str ''hello world''),
          [\<lparr>req_url = str ''http://localhost:8080/inference'', req_file = [0, 64, 0, 64],
            req_data = [(str ''temperature'', str ''0.0''), (str ''response-format'', str ''json''),
                        (str ''language'', str ''en'')],
            req_timeout = 30\<rparr>])"
    using energy_loud [of "new_audio_buffer 1000"]
    by (simp add: transcribe_def transcribe_try_def to_wav_def sync_request_def hello_world_def
        is_hallucination_def wc0_def lib0_def filter0_def new_audio_buffer_def Let_def
        startswith_def strip_def rstrip_chars_def py_isspace_def ascii_lower_def str_def)
  from c1 c2 c3 show ?thesis by simp
qed

section \<open>Properties of the session handler\<close>

lemma handle_message_binary:
  "60 \<le> length msg \<Longrightarrow>
   handle_message lib cfg wc w s (Binary msg) =
     (case get_duration_ms (ab (receive_frame (s\<lparr>message_count := Suc (message_count s)\<rparr>) msg)) of
        Inl e \<Rightarrow> (Closed, [], [])
      | Inr d \<Rightarrow>
          if cfg_chunk_duration_ms cfg \<le> d
          then drain lib wc w (receive_frame (s\<lparr>message_count := Suc (message_count s)\<rparr>) msg)
          else (Streaming (receive_frame (s\<lparr>message_count := Suc (message_count s)\<rparr>) msg), [], []))"
  by (simp add: handle_message_def Let_def)

lemma receive_frame_malformed:
  "length (header_fields msg) < 2 \<Longrightarrow>
   receive_frame s msg = s\<lparr>ab := (ab s)\<lparr>buffer := buffer (ab s) @ drop 60 msg\<rparr>\<rparr>"
  by (auto simp: receive_frame_def parse_header_def buffer_audio_def add_chunk_def
      header_fields_def Let_def)

lemma receive_frame_header:
  "2 \<le> length (header_fields msg) \<Longrightarrow>
   receive_frame s msg =
     s\<lparr>ab := (ab s)\<lparr>buffer := buffer (ab s) @ drop 60 msg,
                     client_id := Some (strip (header_fields msg ! 0)),
                     language := strip (header_fields msg ! 1)\<rparr>\<rparr>"
  by (auto simp: receive_frame_def parse_header_def buffer_audio_def add_chunk_def
      header_fields_def Let_def)

lemma receive_frame_rate: "sample_rate (ab (receive_frame s msg)) = sample_rate (ab s)"
  by (simp add: receive_frame_def parse_header_def buffer_audio_def add_chunk_def Let_def)

lemma receive_frame_buffer: "buffer (ab (receive_frame s msg)) = buffer (ab s) @ drop 60 msg"
  by (simp add: receive_frame_def parse_header_def buffer_audio_def add_chunk_def Let_def)

lemma receive_frame_last: "last_transcript (receive_frame s msg) = last_transcript s"
  by (simp add: receive_frame_def parse_header_def buffer_audio_def add_chunk_def Let_def)

lemma drain_cases:
  "drain lib wc w s =
     (let t = fst (transcribe lib wc (backend w) (ab s));
          reqs = snd (transcribe lib wc (backend w) (ab s))
      in if \<not> send_ok w then (Closed, [], reqs)
         else if t \<noteq> None \<and> t \<noteq> Some [] \<and> t \<noteq> Some (last_transcript s)
         then (Streaming (s\<lparr>transcript_count := Suc (transcript_count s),
                            last_transcript := the t, ab := (ab s)\<lparr>buffer := []\<rparr>\<rparr>),
               [final_response (client_id (ab s)) (the t)], reqs)
         else (Streaming (s\<lparr>ab := (ab s)\<lparr>buffer := []\<rparr>\<rparr>),
               [partial_response (client_id (ab s))], reqs))"
  by (auto simp: drain_def Let_def clear_def split: prod.splits option.splits)

lemma transcribe_loud:
  "buffer b = [0, 64, 0, 64] \<Longrightarrow> language b \<noteq> [] \<Longrightarrow> hd (split 45 (language b)) = str ''en'' \<Longrightarrow>
   transcribe lib0 wc0 hello_world b
     = (Some (str ''hello world''),
        [\<lparr>req_url = str ''http://localhost:8080/inference'', req_file = [0, 64, 0, 64],
          req_data = [(str ''temperature'', str ''0.0''), (str ''response-format'', str ''json''),
                      (str ''language'', str ''en'')],
          req_timeout = 30\<rparr>])"
proof -
  assume b: "buffer b = [0, 64, 0, 64]" and l: "language b \<noteq> []"
    "hd (split 45 (language b)) = str ''en''"
  from b have "b\<lparr>buffer := [0, 64, 0, 64]\<rparr> = b" by (cases b) simp
  with energy_loud [of b] have e: "get_rms_energy b = 16384" by simp
  from b l e show ?thesis
    by (simp add: transcribe_def transcribe_try_def to_wav_def sync_request_def hello_world_def
        is_hallucination_def wc0_def lib0_def filter0_def Let_def
        startswith_def strip_def rstrip_chars_def py_isspace_def ascii_lower_def str_def)
qed

lemma frames:
  "length (frame ''alice|en-US'' 1) = 62"
  "header_fields (frame ''alice|en-US'' 1) = [str ''alice'', str ''en-US'']"
  "drop 60 (frame ''alice|en-US'' 1) = [0, 64]"
  "length (frame ''alice|en-US'' 2) = 64"
  "header_fields (frame ''alice|en-US'' 2) = [str ''alice'', str ''en-US'']"
  "drop 60 (frame ''alice|en-US'' 2) = [0, 64, 0, 64]"
  "length (frame ''garbage'' 1) = 62"
  "header_fields (frame ''garbage'' 1) = [str ''garbage'']"
  "drop 60 (frame ''garbage'' 1) = [0, 64]"
  "length (frame ''garbage'' 2) = 64"
  "header_fields (frame ''garbage'' 2) = [str ''garbage'']"
  "drop 60 (frame ''garbage'' 2) = [0, 64, 0, 64]"
  by code_simp+

lemma strips0:
  "strip (str ''alice'') = str ''alice''" "strip (str ''en-US'') = str ''en-US''"
  "hd (split 45 (str ''en-US'')) = str ''en''" "hd (split 45 (str ''en'')) = str ''en''"
  "str ''en-US'' \<noteq> []" "str ''en'' \<noteq> []"
  by (simp_all add: str_def strip_def rstrip_chars_def py_isspace_def)

end
